theory Spec2Isabelle
  imports Main
begin

section \<open>Python strings\<close>

text \<open>
  A Python \<open>str\<close> is modelled as a \<open>string\<close> whose characters are the code points
  below 256, so \<open>length\<close> counts code points as Python does. The functions below are
  the \<open>str\<close> methods the plugin calls, on that range.
\<close>

definition is_space :: "char \<Rightarrow> bool" where
  \<comment> \<open>\<open>str.isspace\<close> on one character; also the class \<open>\s\<close> of \<open>re\<close> on \<open>str\<close> patterns\<close>
  "is_space c =
     (let n = (of_char c :: nat)
      in (9 \<le> n \<and> n \<le> 13) \<or> (28 \<le> n \<and> n \<le> 32) \<or> n = 133 \<or> n = 160)"

definition strip :: "string \<Rightarrow> string" where
  "strip s = rev (dropWhile is_space (rev (dropWhile is_space s)))"

fun startswith :: "string \<Rightarrow> string \<Rightarrow> bool" where
  \<comment> \<open>\<open>startswith s p\<close> is \<open>s.startswith(p)\<close>\<close>
  "startswith s [] = True"
| "startswith [] (p # ps) = False"
| "startswith (c # cs) (p # ps) = (c = p \<and> startswith cs ps)"

fun split_char :: "char \<Rightarrow> string \<Rightarrow> string list" where
  \<comment> \<open>\<open>s.split(sep)\<close> for a separator of one character\<close>
  "split_char sep [] = [[]]"
| "split_char sep (c # cs) =
     (if c = sep then [] # split_char sep cs
      else (case split_char sep cs of
              [] \<Rightarrow> [[c]]
            | seg # segs \<Rightarrow> (c # seg) # segs))"

definition split_once :: "char \<Rightarrow> string \<Rightarrow> string list" where
  \<comment> \<open>\<open>s.split(sep, 1)\<close>: at most one split, at the first separator\<close>
  "split_once sep s =
     (if sep \<in> set s
      then [takeWhile (\<lambda>c. c \<noteq> sep) s, tl (dropWhile (\<lambda>c. c \<noteq> sep) s)]
      else [s])"

definition lower_char :: "char \<Rightarrow> char" where
  "lower_char c =
     (let n = (of_char c :: nat)
      in if (65 \<le> n \<and> n \<le> 90) \<or> (192 \<le> n \<and> n \<le> 222 \<and> n \<noteq> 215)
         then char_of (n + 32) else c)"

definition lower :: "string \<Rightarrow> string" where
  "lower s = map lower_char s"

fun contains_str :: "string \<Rightarrow> string \<Rightarrow> bool" where
  \<comment> \<open>\<open>contains_str p s\<close> is \<open>p in s\<close> for two strings\<close>
  "contains_str p [] = (p = [])"
| "contains_str p (c # cs) = (startswith (c # cs) p \<or> contains_str p cs)"

definition rstrip_slash :: "string \<Rightarrow> string" where
  \<comment> \<open>\<open>s.rstrip("/")\<close>\<close>
  "rstrip_slash s = rev (dropWhile (\<lambda>c. c = CHR ''/'') (rev s))"

definition digit_char :: "nat \<Rightarrow> char" where
  "digit_char d = char_of (48 + d)"

fun str_of_nat :: "nat \<Rightarrow> string" where
  "str_of_nat n =
     (if n < 10 then [digit_char n] else str_of_nat (n div 10) @ [digit_char (n mod 10)])"

declare str_of_nat.simps [simp del]

definition str_of_int :: "int \<Rightarrow> string" where
  \<comment> \<open>\<open>str(i)\<close> for an \<open>int\<close>\<close>
  "str_of_int i = (if i < 0 then CHR ''-'' # str_of_nat (nat (- i)) else str_of_nat (nat i))"


section \<open>Credential normalization (\<open>main.py\<close>)\<close>

text \<open>
  The value found under \<open>openai_api_key\<close> in the configuration: \<open>None\<close>, a string, a
  list, or anything else. The elements of a list are \<open>None\<close>, strings, integers,
  booleans, or values of another type; for the last, \<open>ItOther s\<close> carries the text
  \<open>s\<close> that \<open>str\<close> returns for the value.
\<close>

datatype pyitem = ItNone | ItBool bool | ItInt int | ItStr string | ItOther string

datatype cfgvalue = CfgNone | CfgStr string | CfgList "pyitem list" | CfgOther

fun py_str :: "pyitem \<Rightarrow> string" where
  "py_str ItNone = ''None''"
| "py_str (ItBool b) = (if b then ''True'' else ''False'')"
| "py_str (ItInt i) = str_of_int i"
| "py_str (ItStr s) = s"
| "py_str (ItOther s) = s"

fun keys_of_parts :: "string list \<Rightarrow> string list \<Rightarrow> string list" where
  \<comment> \<open>the loop \<open>for part in value.split(",")\<close>, \<open>keys\<close> being the accumulator\<close>
  "keys_of_parts [] keys = keys"
| "keys_of_parts (part # parts) keys =
     (let k = strip part
      in if k \<noteq> [] then keys_of_parts parts (keys @ [k]) else keys_of_parts parts keys)"

fun keys_of_items :: "pyitem list \<Rightarrow> string list \<Rightarrow> string list" where
  \<comment> \<open>the loop \<open>for item in value\<close>\<close>
  "keys_of_items [] keys = keys"
| "keys_of_items (item # items) keys =
     (if item = ItNone then keys_of_items items keys
      else (let k = strip (py_str item)
            in if k \<noteq> [] then keys_of_items items (keys @ [k])
               else keys_of_items items keys))"

fun normalize_api_keys :: "cfgvalue \<Rightarrow> string list" where
  \<comment> \<open>\<open>MyPlugin._normalize_api_keys\<close>\<close>
  "normalize_api_keys CfgNone = []"
| "normalize_api_keys (CfgStr s) = keys_of_parts (split_char CHR '','' s) []"
| "normalize_api_keys (CfgList items) = keys_of_items items []"
| "normalize_api_keys CfgOther = []"


section \<open>The shared state and the key rotator (\<open>utils/ttp.py\<close>)\<close>

datatype error =
    ConfigError          \<comment> \<open>the \<open>ValueError\<close> of \<open>get_next_api_key\<close>\<close>
  | NetworkError         \<comment> \<open>\<open>aiohttp.ClientError\<close> or \<open>asyncio.TimeoutError\<close>\<close>
  | UnexpectedError      \<comment> \<open>any other exception\<close>

datatype logmsg =
    MsgNoKeys            \<comment> \<open>no API key given\<close>
  | MsgRetry             \<comment> \<open>a retry is announced, before its sleep\<close>
  | MsgRotated           \<comment> \<open>the cursor moved to the next key\<close>
  | MsgDownloadFailed    \<comment> \<open>the image download did not answer 200\<close>
  | MsgUrlImageSaved     \<comment> \<open>the downloaded image was stored\<close>
  | MsgB64ImageSaved     \<comment> \<open>the inline image was stored\<close>
  | MsgNoImage           \<comment> \<open>the call succeeded, no image data found\<close>
  | MsgApiError          \<comment> \<open>the provider's error message\<close>
  | MsgNetworkFailed     \<comment> \<open>the request failed on the network\<close>
  | MsgException         \<comment> \<open>another exception was caught\<close>
  | MsgExhausted         \<comment> \<open>the retries are used up\<close>
  | MsgDecodeFailed      \<comment> \<open>base64 decoding failed\<close>
  | MsgSaveFailed        \<comment> \<open>storing the image file failed\<close>
  | MsgSavedTo           \<comment> \<open>the path of the stored image\<close>

datatype json =
    JNull | JBool bool | JInt int | JStr string | JArr "json list" | JObj "(string \<times> json) list"

text \<open>
  A parsed JSON body: \<open>JNull\<close> is \<open>None\<close>, \<open>JArr\<close> a \<open>list\<close>, \<open>JObj\<close> a \<open>dict\<close>
  given by its items, a key being looked up with \<open>map_of\<close>. Numbers are integers.
  The request body sent to the provider is such a value too.
\<close>

record request =
  req_url :: string
  req_bearer :: string     \<comment> \<open>the key of the header \<open>Authorization: Bearer <key>\<close>\<close>
  req_json :: json

text \<open>
  What a call does to the outside world is recorded, in order, in the \<open>trace\<close> of the
  state: the requests sent, the sleeps, the files written, the calls of the module's
  \<open>rotate_to_next_api_key\<close>, and the log lines of the retry loop and of the image store.
  The lines of level \<open>debug\<close> are left out: they raise nothing and no branch depends
  on them.
\<close>

datatype event =
    EvSleep nat
  | EvPost request
  | EvGet string
  | EvMkdir
  | EvCleanup
  | EvWrite string string          \<comment> \<open>path and bytes\<close>
  | EvRotate                       \<comment> \<open>\<open>rotate_to_next_api_key\<close> was called\<close>
  | EvLog logmsg

record gen_state =
  api_key_index :: nat
  last_saved_image :: "string option \<times> string option"    \<comment> \<open>\<open>url\<close> and \<open>path\<close>\<close>
  trace :: "event list"

definition init_state :: gen_state where
  \<comment> \<open>\<open>ImageGeneratorState.__init__\<close>\<close>
  "init_state = \<lparr>api_key_index = 0, last_saved_image = (None, None), trace = []\<rparr>"

definition emit :: "event \<Rightarrow> gen_state \<Rightarrow> gen_state" where
  "emit e st = st\<lparr>trace := trace st @ [e]\<rparr>"

definition state_get_next_api_key :: "gen_state \<Rightarrow> string list \<Rightarrow> error + string" where
  \<comment> \<open>\<open>ImageGeneratorState.get_next_api_key\<close>\<close>
  "state_get_next_api_key st api_keys =
     (if api_keys = [] then Inl ConfigError
      else Inr (api_keys ! (api_key_index st mod length api_keys)))"

definition state_rotate_to_next_api_key :: "string list \<Rightarrow> gen_state \<Rightarrow> gen_state" where
  \<comment> \<open>\<open>ImageGeneratorState.rotate_to_next_api_key\<close>\<close>
  "state_rotate_to_next_api_key api_keys st =
     (if api_keys \<noteq> [] \<and> length api_keys > 1
      then emit (EvLog MsgRotated)
             (st\<lparr>api_key_index := (api_key_index st + 1) mod length api_keys\<rparr>)
      else st)"

definition update_saved_image :: "string \<Rightarrow> string \<Rightarrow> gen_state \<Rightarrow> gen_state" where
  "update_saved_image url path st = st\<lparr>last_saved_image := (Some url, Some path)\<rparr>"

definition get_saved_image_info :: "gen_state \<Rightarrow> string option \<times> string option" where
  "get_saved_image_info st = (fst (last_saved_image st), snd (last_saved_image st))"

definition get_next_api_key :: "gen_state \<Rightarrow> string list \<Rightarrow> error + string" where
  \<comment> \<open>the module's \<open>get_next_api_key\<close>\<close>
  "get_next_api_key st api_keys = state_get_next_api_key st api_keys"

definition rotate_to_next_api_key :: "string list \<Rightarrow> gen_state \<Rightarrow> gen_state" where
  \<comment> \<open>the module's \<open>rotate_to_next_api_key\<close>; the call itself is recorded\<close>
  "rotate_to_next_api_key api_keys st = state_rotate_to_next_api_key api_keys (emit EvRotate st)"


section \<open>Python operations on JSON values\<close>

definition truthy :: "json \<Rightarrow> bool" where
  "truthy v =
     (case v of
        JNull \<Rightarrow> False
      | JBool b \<Rightarrow> b
      | JInt i \<Rightarrow> i \<noteq> 0
      | JStr s \<Rightarrow> s \<noteq> []
      | JArr xs \<Rightarrow> xs \<noteq> []
      | JObj kvs \<Rightarrow> kvs \<noteq> [])"

definition py_in :: "string \<Rightarrow> json \<Rightarrow> error + bool" where
  \<comment> \<open>\<open>key in v\<close>; a \<open>TypeError\<close> where \<open>v\<close> is no container\<close>
  "py_in key v =
     (case v of
        JObj kvs \<Rightarrow> Inr (key \<in> set (map fst kvs))
      | JArr xs \<Rightarrow> Inr (JStr key \<in> set xs)
      | JStr s \<Rightarrow> Inr (contains_str key s)
      | _ \<Rightarrow> Inl UnexpectedError)"

definition py_getitem :: "json \<Rightarrow> string \<Rightarrow> error + json" where
  \<comment> \<open>\<open>v[key]\<close> for a string key: \<open>KeyError\<close> or \<open>TypeError\<close> where it fails\<close>
  "py_getitem v key =
     (case v of
        JObj kvs \<Rightarrow> (case map_of kvs key of None \<Rightarrow> Inl UnexpectedError | Some x \<Rightarrow> Inr x)
      | _ \<Rightarrow> Inl UnexpectedError)"

definition py_first :: "json \<Rightarrow> error + json" where
  \<comment> \<open>\<open>v[0]\<close>: \<open>IndexError\<close>, \<open>KeyError\<close> or \<open>TypeError\<close> where it fails\<close>
  "py_first v =
     (case v of
        JArr xs \<Rightarrow> (case xs of [] \<Rightarrow> Inl UnexpectedError | x # _ \<Rightarrow> Inr x)
      | JStr s \<Rightarrow> (case s of [] \<Rightarrow> Inl UnexpectedError | c # _ \<Rightarrow> Inr (JStr [c]))
      | _ \<Rightarrow> Inl UnexpectedError)"

definition dict_get :: "json \<Rightarrow> string \<Rightarrow> json \<Rightarrow> error + json" where
  \<comment> \<open>\<open>v.get(key, default)\<close>: \<open>AttributeError\<close> where \<open>v\<close> is no \<open>dict\<close>\<close>
  "dict_get v key dflt =
     (case v of
        JObj kvs \<Rightarrow> Inr (case map_of kvs key of None \<Rightarrow> dflt | Some x \<Rightarrow> x)
      | _ \<Rightarrow> Inl UnexpectedError)"

definition item_get :: "(string \<times> json) list \<Rightarrow> string \<Rightarrow> json" where
  \<comment> \<open>\<open>d.get(key)\<close> on a \<open>dict\<close>\<close>
  "item_get kvs key = (case map_of kvs key of None \<Rightarrow> JNull | Some x \<Rightarrow> x)"


section \<open>The patterns searched in a response text\<close>

definition is_alnum :: "char \<Rightarrow> bool" where
  \<comment> \<open>the ranges \<open>a-z\<close>, \<open>A-Z\<close>, \<open>0-9\<close>\<close>
  "is_alnum c =
     (let n = (of_char c :: nat)
      in (97 \<le> n \<and> n \<le> 122) \<or> (65 \<le> n \<and> n \<le> 90) \<or> (48 \<le> n \<and> n \<le> 57))"

definition is_mime_char :: "char \<Rightarrow> bool" where
  \<comment> \<open>the class \<open>[a-zA-Z0-9.+-]\<close>\<close>
  "is_mime_char c = (is_alnum c \<or> c = CHR ''.'' \<or> c = CHR ''+'' \<or> c = CHR ''-'')"

definition is_b64_char :: "char \<Rightarrow> bool" where
  \<comment> \<open>the class \<open>[A-Za-z0-9+/=]\<close>\<close>
  "is_b64_char c = (is_alnum c \<or> c = CHR ''+'' \<or> c = CHR ''/'' \<or> c = CHR ''='')"

definition is_url_char :: "char \<Rightarrow> bool" where
  \<comment> \<open>the class \<open>[^\s)]\<close>\<close>
  "is_url_char c = (\<not> is_space c \<and> c \<noteq> CHR '')'')"

definition match_data_url :: "string \<Rightarrow> string option" where
  \<comment> \<open>\<open>_DATA_URL_PATTERN\<close> matched at the start of \<open>s\<close>: each class takes its longest
      run, which is the only way the next literal or the end can follow\<close>
  "match_data_url s =
     (if startswith s ''data:image/''
      then (let r1 = drop 11 s;
                mime = takeWhile is_mime_char r1;
                r2 = dropWhile is_mime_char r1
            in if mime \<noteq> [] \<and> startswith r2 '';base64,''
               then (let payload = takeWhile is_b64_char (drop 8 r2)
                     in if payload \<noteq> []
                        then Some (''data:image/'' @ mime @ '';base64,'' @ payload)
                        else None)
               else None)
      else None)"

fun search_data_url :: "string \<Rightarrow> string option" where
  \<comment> \<open>\<open>_DATA_URL_PATTERN.search(s)\<close>, group 1 of the leftmost match\<close>
  "search_data_url [] = match_data_url []"
| "search_data_url (c # cs) =
     (case match_data_url (c # cs) of
        Some m \<Rightarrow> Some m
      | None \<Rightarrow> search_data_url cs)"

definition match_http_url :: "string \<Rightarrow> string option" where
  \<comment> \<open>\<open>_HTTP_URL_PATTERN\<close> matched at the start of \<open>s\<close>\<close>
  "match_http_url s =
     (if startswith s ''https://''
      then (let run = takeWhile is_url_char (drop 8 s)
            in if run \<noteq> [] then Some (''https://'' @ run) else None)
      else if startswith s ''http://''
      then (let run = takeWhile is_url_char (drop 7 s)
            in if run \<noteq> [] then Some (''http://'' @ run) else None)
      else None)"

fun search_http_url :: "string \<Rightarrow> string option" where
  \<comment> \<open>\<open>_HTTP_URL_PATTERN.search(s)\<close>, group 1 of the leftmost match\<close>
  "search_http_url [] = match_http_url []"
| "search_http_url (c # cs) =
     (case match_http_url (c # cs) of
        Some m \<Rightarrow> Some m
      | None \<Rightarrow> search_http_url cs)"


section \<open>Finding the image in a response\<close>

text \<open>
  The three variables of \<open>generate_image_openai\<close> that the search fills:
  \<open>image_url\<close>, \<open>image_format\<close> and \<open>base64_string\<close>. The first and the last are
  \<open>None\<close> (\<open>JNull\<close>) until found; the fallback on \<open>data[0]\<close> can put a value of any
  JSON type there. The warnings logged when a data URL cannot be taken apart are not
  recorded.
\<close>

type_synonym extraction = "json \<times> string \<times> json"

definition no_image :: extraction where
  "no_image = (JNull, ''png'', JNull)"

definition parse_data_url :: "string \<Rightarrow> (string \<times> string) option" where
  \<comment> \<open>\<open>header, base64_part = s.split(",", 1)\<close> and
      \<open>header.split("/")[1].split(";")[0]\<close>: the format and the payload, or \<open>None\<close>
      where one of the two raises\<close>
  "parse_data_url s =
     (case split_once CHR '','' s of
        [header, base64_part] \<Rightarrow>
          (case split_char CHR ''/'' header of
             _ # f # _ \<Rightarrow>
               (case split_char CHR '';'' f of
                  [] \<Rightarrow> None
                | image_format # _ \<Rightarrow> Some (image_format, base64_part))
           | _ \<Rightarrow> None)
      | _ \<Rightarrow> None)"

definition set_from_data_url :: "string \<Rightarrow> extraction \<Rightarrow> extraction" where
  \<comment> \<open>the \<open>try\<close> block around the parse: on failure nothing is assigned\<close>
  "set_from_data_url s ex =
     (case parse_data_url s of
        Some (image_format, base64_part) \<Rightarrow> (fst ex, image_format, JStr base64_part)
      | None \<Rightarrow> ex)"

definition extract_from_str :: "string \<Rightarrow> extraction" where
  \<comment> \<open>the branch \<open>isinstance(content, str)\<close>\<close>
  "extract_from_str content =
     (let text = strip content
      in if startswith text ''data:image/'' then set_from_data_url text no_image
         else if startswith text ''http://'' \<or> startswith text ''https://''
         then (JStr text, ''png'', JNull)
         else (case search_data_url text of
                 Some candidate \<Rightarrow> set_from_data_url candidate no_image
               | None \<Rightarrow>
                   (case search_http_url text of
                      Some u \<Rightarrow> (JStr u, ''png'', JNull)
                    | None \<Rightarrow> no_image)))"

definition in_image_types :: "json \<Rightarrow> error + bool" where
  \<comment> \<open>\<open>v in {"image_url", "output_image"}\<close>: a \<open>list\<close> or a \<open>dict\<close> cannot be hashed\<close>
  "in_image_types v =
     (case v of
        JStr s \<Rightarrow> Inr (s = ''image_url'' \<or> s = ''output_image'')
      | JArr _ \<Rightarrow> Inl UnexpectedError
      | JObj _ \<Rightarrow> Inl UnexpectedError
      | _ \<Rightarrow> Inr False)"

definition item_candidate :: "(string \<times> json) list \<Rightarrow> json" where
  \<comment> \<open>\<open>url_obj = item.get("image_url") or item.get("url")\<close>, and \<open>candidate\<close>\<close>
  "item_candidate kvs =
     (let url_obj = (if truthy (item_get kvs ''image_url'')
                     then item_get kvs ''image_url'' else item_get kvs ''url'')
      in case url_obj of
           JObj kvs' \<Rightarrow> item_get kvs' ''url''
         | _ \<Rightarrow> url_obj)"

fun scan_items :: "json list \<Rightarrow> extraction \<Rightarrow> error + extraction" where
  \<comment> \<open>the loop \<open>for item in content\<close>; \<open>break\<close> is the result without a recursive call\<close>
  "scan_items [] ex = Inr ex"
| "scan_items (item # items) ex =
     (case item of
        JObj kvs \<Rightarrow>
          (case in_image_types (item_get kvs ''type'') of
             Inl e \<Rightarrow> Inl e
           | Inr False \<Rightarrow> scan_items items ex
           | Inr True \<Rightarrow>
               (case item_candidate kvs of
                  JStr candidate \<Rightarrow>
                    (if candidate \<noteq> []
                     then (if startswith candidate ''data:image/''
                           then scan_items items (set_from_data_url candidate ex)
                           else Inr (JStr candidate, fst (snd ex), snd (snd ex)))
                     else scan_items items ex)
                | _ \<Rightarrow> scan_items items ex))
      | _ \<Rightarrow> scan_items items ex)"

definition extract_from_content :: "json \<Rightarrow> error + extraction" where
  "extract_from_content content =
     (case content of
        JStr s \<Rightarrow> Inr (extract_from_str s)
      | JArr items \<Rightarrow> scan_items items no_image
      | _ \<Rightarrow> Inr no_image)"

definition data_fallback :: "json \<Rightarrow> extraction \<Rightarrow> error + extraction" where
  \<comment> \<open>the \<open>data[]\<close> shape, tried when neither variable holds a true value\<close>
  "data_fallback data ex =
     (if truthy (fst ex) \<or> truthy (snd (snd ex)) then Inr ex
      else (case py_in ''data'' data of
              Inl e \<Rightarrow> Inl e
            | Inr False \<Rightarrow> Inr ex
            | Inr True \<Rightarrow>
                (case py_getitem data ''data'' of
                   Inl e \<Rightarrow> Inl e
                 | Inr d \<Rightarrow>
                     (if \<not> truthy d then Inr ex
                      else (case py_first d of
                              Inl e \<Rightarrow> Inl e
                            | Inr item0 \<Rightarrow>
                                (case py_in ''url'' item0 of
                                   Inl e \<Rightarrow> Inl e
                                 | Inr True \<Rightarrow>
                                     (case py_getitem item0 ''url'' of
                                        Inl e \<Rightarrow> Inl e
                                      | Inr u \<Rightarrow> Inr (u, fst (snd ex), snd (snd ex)))
                                 | Inr False \<Rightarrow>
                                     (case py_in ''b64_json'' item0 of
                                        Inl e \<Rightarrow> Inl e
                                      | Inr True \<Rightarrow>
                                          (case py_getitem item0 ''b64_json'' of
                                             Inl e \<Rightarrow> Inl e
                                           | Inr b \<Rightarrow> Inr (fst ex, ''png'', b))
                                      | Inr False \<Rightarrow> Inr ex)))))))"

definition extract_image :: "json \<Rightarrow> error + extraction" where
  \<comment> \<open>lines 341 to 408: from \<open>choice = data["choices"][0]\<close> to the fallback\<close>
  "extract_image data =
     (case py_getitem data ''choices'' of
        Inl e \<Rightarrow> Inl e
      | Inr choices \<Rightarrow>
          (case py_first choices of
             Inl e \<Rightarrow> Inl e
           | Inr choice \<Rightarrow>
               (case dict_get choice ''message'' (JObj []) of
                  Inl e \<Rightarrow> Inl e
                | Inr message \<Rightarrow>
                    (case dict_get message ''content'' JNull of
                       Inl e \<Rightarrow> Inl e
                     | Inr content \<Rightarrow>
                         (case extract_from_content content of
                            Inl e \<Rightarrow> Inl e
                          | Inr ex \<Rightarrow> data_fallback data ex)))))"

definition has_choices :: "int \<Rightarrow> json \<Rightarrow> error + bool" where
  \<comment> \<open>\<open>response.status == 200 and "choices" in data and data["choices"]\<close>\<close>
  "has_choices status data =
     (if status \<noteq> 200 then Inr False
      else (case py_in ''choices'' data of
              Inl e \<Rightarrow> Inl e
            | Inr False \<Rightarrow> Inr False
            | Inr True \<Rightarrow>
                (case py_getitem data ''choices'' of
                   Inl e \<Rightarrow> Inl e
                 | Inr c \<Rightarrow> Inr (truthy c))))"

definition error_message :: "json \<Rightarrow> error + unit" where
  \<comment> \<open>\<open>data.get("error", {}).get("message", ...)\<close> when \<open>data\<close> is a \<open>dict\<close>: only
      whether it raises matters\<close>
  "error_message data =
     (case data of
        JObj kvs \<Rightarrow>
          (case dict_get data ''error'' (JObj []) of
             Inl e \<Rightarrow> Inl e
           | Inr err \<Rightarrow>
               (case dict_get err ''message'' JNull of
                  Inl e \<Rightarrow> Inl e
                | Inr _ \<Rightarrow> Inr ()))
      | _ \<Rightarrow> Inr ())"


section \<open>Building the request\<close>

datatype key_arg = KeyNone | KeyStr string | KeyList "pyitem list"

definition client_keys :: "key_arg \<Rightarrow> string list" where
  \<comment> \<open>lines 224 to 229: the parameter \<open>api_key\<close> as a list of keys\<close>
  "client_keys api_key =
     (case api_key of
        KeyList items \<Rightarrow> filter (\<lambda>k. k \<noteq> []) (map (\<lambda>k. strip (py_str k)) items)
      | KeyStr s \<Rightarrow> (if s \<noteq> [] then [strip s] else [])
      | KeyNone \<Rightarrow> [])"

definition mode_of :: "string option \<Rightarrow> string" where
  \<comment> \<open>\<open>(api_format or "openai").lower()\<close>\<close>
  "mode_of api_format =
     lower (case api_format of None \<Rightarrow> ''openai'' | Some f \<Rightarrow> if f = [] then ''openai'' else f)"

definition default_base :: string where
  "default_base = ''https://api.openai.com''"

definition build_url :: "string \<Rightarrow> string option \<Rightarrow> string \<Rightarrow> string" where
  "build_url mode api_base model =
     (let base_url = rstrip_slash
            (case api_base of None \<Rightarrow> default_base | Some b \<Rightarrow> if b = [] then default_base else b)
      in if mode = ''openai'' then base_url @ ''/v1/chat/completions''
         else if contains_str ''v1beta'' base_url then base_url
         else base_url @ ''/v1beta/models/'' @ model @ '':generateContent'')"

definition instruction :: "string \<Rightarrow> string" where
  \<comment> \<open>the text of the first entry of \<open>message_content\<close>\<close>
  "instruction prompt =
     ''Generate an image based on the following description, and respond with either a direct image URL ''
     @ ''or a single data:image/*;base64,... string.'' @ [CHR 0x0A, CHR 0x0A]
     @ ''Description: '' @ prompt"

definition with_data_prefix :: "string \<Rightarrow> string" where
  "with_data_prefix base64_image =
     (if \<not> startswith base64_image ''data:image/''
      then ''data:image/png;base64,'' @ base64_image else base64_image)"

definition image_entry :: "string \<Rightarrow> json" where
  "image_entry base64_image =
     JObj [(''type'', JStr ''image_url''),
           (''image_url'', JObj [(''url'', JStr (with_data_prefix base64_image))])]"

definition inline_part :: "string \<Rightarrow> json" where
  "inline_part base64_image =
     JObj [(''inline_data'',
            JObj [(''mime_type'', JStr ''image/png''),
                  (''data'', JStr (last (split_once CHR '','' (with_data_prefix base64_image))))])]"

definition images_given :: "string list option \<Rightarrow> string list" where
  \<comment> \<open>\<open>if input_images:\<close> holds for neither \<open>None\<close> nor the empty list\<close>
  "images_given input_images = (case input_images of None \<Rightarrow> [] | Some imgs \<Rightarrow> imgs)"

definition build_payload :: "string \<Rightarrow> string \<Rightarrow> string \<Rightarrow> string list option \<Rightarrow> json" where
  "build_payload mode model prompt input_images =
     (if mode = ''openai''
      then (let message_content =
                  JObj [(''type'', JStr ''text''), (''text'', JStr (instruction prompt))]
                  # map image_entry (images_given input_images);
                content_field =
                  (if length message_content = 1 then JStr (instruction prompt)
                   else JArr message_content)
            in JObj [(''model'', JStr model),
                     (''messages'',
                      JArr [JObj [(''role'', JStr ''user''), (''content'', content_field)]])])
      else (let parts = JObj [(''text'', JStr prompt)] # map inline_part (images_given input_images)
            in JObj [(''model'', JStr model),
                     (''contents'',
                      JArr [JObj [(''role'', JStr ''user''), (''parts'', JArr parts)]])]))"


section \<open>The outside world\<close>

text \<open>
  The provider, the network, the file system, the clock and \<open>base64.b64decode\<close> are
  parameters of the model. \<open>env_at w k\<close> is what the call meets in attempt \<open>k\<close> of the
  retry loop: the answer to the request sent (\<open>response.json()\<close> that raises is a
  request that raises), the answer to the download, whether the images directory can
  be made and the new file written, and the time stamp and random suffix of the file
  name. \<open>cleanup_old_images\<close> catches every exception of its own and touches neither
  the state nor the new file: only its call is recorded.
\<close>

datatype post_outcome = PostRaises error | PostResponse int json

datatype get_outcome = GetRaises error | GetResponse int string

datatype decode_result = Decoded string | BinasciiError | DecodeRaises

record attempt_env =
  post :: "request \<Rightarrow> post_outcome"
  http_get :: "string \<Rightarrow> get_outcome"
  mkdir_ok :: bool
  b64decode :: "string \<Rightarrow> decode_result"
  write_ok :: "string \<Rightarrow> bool"
  stamp :: string

record world =
  images_dir :: string                   \<comment> \<open>\<open>str(script_dir / "images")\<close>\<close>
  absolute :: "string \<Rightarrow> string"         \<comment> \<open>\<open>str(Path(p).absolute())\<close>\<close>
  env_at :: "nat \<Rightarrow> attempt_env"

type_synonym gen_result = "string option \<times> string option"

datatype outcome = Returned gen_result | Raised error | Completed


section \<open>The image store\<close>

definition decode_arg :: "attempt_env \<Rightarrow> json \<Rightarrow> decode_result" where
  \<comment> \<open>\<open>base64.b64decode(base64_string)\<close>: a \<open>TypeError\<close> for what is no string\<close>
  "decode_arg env base64_string =
     (case base64_string of JStr s \<Rightarrow> b64decode env s | _ \<Rightarrow> DecodeRaises)"

definition save_base64_image ::
  "world \<Rightarrow> attempt_env \<Rightarrow> json \<Rightarrow> string \<Rightarrow> gen_state \<Rightarrow> bool \<times> gen_state" where
  "save_base64_image w env base64_string image_format st =
     (let st1 = emit EvMkdir st
      in if \<not> mkdir_ok env then (False, emit (EvLog MsgSaveFailed) st1)
         else (let st2 = emit EvCleanup st1
               in case decode_arg env base64_string of
                    BinasciiError \<Rightarrow> (False, emit (EvLog MsgDecodeFailed) st2)
                  | DecodeRaises \<Rightarrow> (False, emit (EvLog MsgSaveFailed) st2)
                  | Decoded image_data \<Rightarrow>
                      (let image_path =
                             images_dir w @ ''/gemini_image_'' @ stamp env @ ''.'' @ image_format
                       in if \<not> write_ok env image_path
                          then (False, emit (EvLog MsgSaveFailed) st2)
                          else (let st3 = emit (EvWrite image_path image_data) st2;
                                    file_url = ''file://'' @ absolute w image_path;
                                    st4 = update_saved_image file_url image_path st3
                                in (True, emit (EvLog MsgSavedTo) st4)))))"

definition download_and_save ::
  "world \<Rightarrow> attempt_env \<Rightarrow> json \<Rightarrow> gen_state \<Rightarrow> outcome \<times> gen_state" where
  \<comment> \<open>lines 412 to 434, the body of \<open>if image_url:\<close>; \<open>session.get\<close> raises for what
      is no string\<close>
  "download_and_save w env image_url st =
     (case image_url of
        JStr u \<Rightarrow>
          (let st1 = emit (EvGet u) st
           in case http_get env u of
                GetRaises e \<Rightarrow> (Raised e, st1)
              | GetResponse status body \<Rightarrow>
                  (if status = 200
                   then (let st2 = emit EvMkdir st1
                         in if \<not> mkdir_ok env then (Raised UnexpectedError, st2)
                            else (let st3 = emit EvCleanup st2;
                                      image_path =
                                        images_dir w @ ''/openai_image_'' @ stamp env @ ''.png''
                                  in if \<not> write_ok env image_path
                                     then (Raised UnexpectedError, st3)
                                     else (let st4 = emit (EvWrite image_path body) st3;
                                               file_url = ''file://'' @ absolute w image_path;
                                               st5 = update_saved_image file_url image_path st4
                                           in (Returned (Some file_url, Some image_path),
                                               emit (EvLog MsgUrlImageSaved) st5))))
                   else (Completed, emit (EvLog MsgDownloadFailed) st1)))
      | _ \<Rightarrow> (Raised UnexpectedError, st))"


section \<open>The generation client\<close>

definition save_inline ::
  "world \<Rightarrow> attempt_env \<Rightarrow> json \<Rightarrow> string \<Rightarrow> gen_state \<Rightarrow> outcome \<times> gen_state" where
  \<comment> \<open>lines 436 to 442: from \<open>if base64_string:\<close> to \<open>return None, None\<close>\<close>
  "save_inline w env base64_string image_format st =
     (if truthy base64_string
      then (case save_base64_image w env base64_string image_format st of
              (True, st1) \<Rightarrow>
                (let st2 = emit (EvLog MsgB64ImageSaved) st1
                 in (Returned (get_saved_image_info st2), st2))
            | (False, st1) \<Rightarrow> (Returned (None, None), emit (EvLog MsgNoImage) st1))
      else (Returned (None, None), emit (EvLog MsgNoImage) st))"

definition handle_ok_response ::
  "world \<Rightarrow> attempt_env \<Rightarrow> json \<Rightarrow> gen_state \<Rightarrow> outcome \<times> gen_state" where
  \<comment> \<open>lines 341 to 442, the body of the test for status 200 and \<open>choices\<close>\<close>
  "handle_ok_response w env data st =
     (case extract_image data of
        Inl e \<Rightarrow> (Raised e, st)
      | Inr (image_url, image_format, base64_string) \<Rightarrow>
          (if truthy image_url
           then (case download_and_save w env image_url st of
                   (Completed, st1) \<Rightarrow> save_inline w env base64_string image_format st1
                 | (r, st1) \<Rightarrow> (r, st1))
           else save_inline w env base64_string image_format st))"

definition backoff :: "nat \<Rightarrow> gen_state \<Rightarrow> gen_state" where
  \<comment> \<open>lines 324 to 330\<close>
  "backoff retry_attempt st =
     (if retry_attempt > 0
      then emit (EvSleep (min (2 ^ retry_attempt) 10)) (emit (EvLog MsgRetry) st)
      else st)"

definition try_attempt ::
  "world \<Rightarrow> string list \<Rightarrow> string \<Rightarrow> json \<Rightarrow> nat \<Rightarrow> gen_state \<Rightarrow> outcome \<times> gen_state" where
  \<comment> \<open>the body of \<open>try\<close>, lines 317 to 455\<close>
  "try_attempt w api_keys url payload retry_attempt st =
     (case get_next_api_key st api_keys of
        Inl e \<Rightarrow> (Raised e, st)
      | Inr current_key \<Rightarrow>
          (let req = \<lparr>req_url = url, req_bearer = current_key, req_json = payload\<rparr>;
               st1 = emit (EvPost req) (backoff retry_attempt st)
           in case post (env_at w retry_attempt) req of
                PostRaises e \<Rightarrow> (Raised e, st1)
              | PostResponse status data \<Rightarrow>
                  (case has_choices status data of
                     Inl e \<Rightarrow> (Raised e, st1)
                   | Inr True \<Rightarrow> handle_ok_response w (env_at w retry_attempt) data st1
                   | Inr False \<Rightarrow>
                       (case error_message data of
                          Inl e \<Rightarrow> (Raised e, st1)
                        | Inr _ \<Rightarrow>
                            (Completed,
                             rotate_to_next_api_key api_keys (emit (EvLog MsgApiError) st1))))))"

definition attempt ::
  "world \<Rightarrow> string list \<Rightarrow> string \<Rightarrow> json \<Rightarrow> nat \<Rightarrow> gen_state
     \<Rightarrow> gen_result option \<times> gen_state" where
  \<comment> \<open>one turn of the loop with its two \<open>except\<close> clauses: \<open>Some r\<close> is \<open>return r\<close>,
      \<open>None\<close> goes on to the next turn\<close>
  "attempt w api_keys url payload retry_attempt st =
     (case try_attempt w api_keys url payload retry_attempt st of
        (Returned r, st1) \<Rightarrow> (Some r, st1)
      | (Completed, st1) \<Rightarrow> (None, st1)
      | (Raised e, st1) \<Rightarrow>
          (None,
           rotate_to_next_api_key api_keys
             (emit (EvLog (if e = NetworkError then MsgNetworkFailed else MsgException)) st1)))"

fun retry_loop ::
  "world \<Rightarrow> string list \<Rightarrow> string \<Rightarrow> json \<Rightarrow> nat list \<Rightarrow> gen_state
     \<Rightarrow> gen_result \<times> gen_state" where
  \<comment> \<open>\<open>for retry_attempt in range(max_retry_attempts)\<close> and the lines after the loop\<close>
  "retry_loop w api_keys url payload [] st = ((None, None), emit (EvLog MsgExhausted) st)"
| "retry_loop w api_keys url payload (retry_attempt # rest) st =
     (case attempt w api_keys url payload retry_attempt st of
        (Some r, st1) \<Rightarrow> (r, st1)
      | (None, st1) \<Rightarrow> retry_loop w api_keys url payload rest st1)"

record gen_args =
  prompt :: string
  api_key :: key_arg
  model :: string
  input_images :: "string list option"
  api_base :: "string option"
  api_format :: "string option"
  max_retry_attempts :: int

definition generate_image_openai :: "world \<Rightarrow> gen_args \<Rightarrow> gen_state \<Rightarrow> gen_result \<times> gen_state" where
  "generate_image_openai w a st =
     (let mode = mode_of (api_format a);
          api_keys = client_keys (api_key a)
      in if api_keys = [] then ((None, None), emit (EvLog MsgNoKeys) st)
         else retry_loop w api_keys
                (build_url mode (api_base a) (model a))
                (build_payload mode (model a) (prompt a) (input_images a))
                [0 ..< nat (max_retry_attempts a)] st)"

definition posts :: "gen_state \<Rightarrow> nat" where
  \<comment> \<open>the number of requests sent to the provider so far\<close>
  "posts st = length (filter (\<lambda>e. case e of EvPost _ \<Rightarrow> True | _ \<Rightarrow> False) (trace st))"

definition rotations :: "gen_state \<Rightarrow> nat" where
  \<comment> \<open>the number of calls of \<open>rotate_to_next_api_key\<close> so far\<close>
  "rotations st = length (filter (\<lambda>e. e = EvRotate) (trace st))"

definition logged :: "logmsg \<Rightarrow> gen_state \<Rightarrow> bool" where
  "logged m st = (EvLog m \<in> set (trace st))"


section \<open>Image references in a text, as the specification words them\<close>








section \<open>Providers that fail, and an example world\<close>

definition provider_fails :: "post_outcome \<Rightarrow> bool" where
  \<comment> \<open>the request raises, or the status of the answer is not 200\<close>
  "provider_fails out =
     (case out of PostRaises _ \<Rightarrow> True | PostResponse status _ \<Rightarrow> status \<noteq> 200)"

text \<open>
  A world for the examples: the provider answers every request with \<open>p\<close>, every
  download is answered with \<open>g\<close>, and the directory and the files can be written.
  Of the payloads of the examples, \<open>QQ==\<close> decodes, to the one byte \<open>A\<close>; the
  payload \<open>A\<close>, one character long, does not, and \<open>b64decode\<close> raises
  \<open>binascii.Error\<close> for it.
\<close>

definition example_env :: "post_outcome \<Rightarrow> get_outcome \<Rightarrow> attempt_env" where
  "example_env p g =
     \<lparr>post = (\<lambda>_. p), http_get = (\<lambda>_. g), mkdir_ok = True,
      b64decode = (\<lambda>s. if s = ''QQ=='' then Decoded ''A'' else BinasciiError),
      write_ok = (\<lambda>_. True), stamp = ''20250101_120000_0a1b2c3d''\<rparr>"

definition example_world :: "post_outcome \<Rightarrow> get_outcome \<Rightarrow> world" where
  "example_world p g =
     \<lparr>images_dir = ''/plugin/images'', absolute = (\<lambda>path. path),
      env_at = (\<lambda>_. example_env p g)\<rparr>"

definition example_args :: "string option \<Rightarrow> gen_args" where
  "example_args fmt =
     \<lparr>prompt = ''a cat'', api_key = KeyList [ItStr ''k1'', ItStr ''k2''],
      model = ''gpt-image-1'', input_images = None, api_base = None,
      api_format = fmt, max_retry_attempts = 3\<rparr>"

definition response_with_content :: "json \<Rightarrow> json" where
  \<comment> \<open>the body \<open>{"choices": [{"message": {"content": c}}]}\<close>\<close>
  "response_with_content c =
     JObj [(''choices'', JArr [JObj [(''message'', JObj [(''content'', c)])]])]"




section \<open>The key rotator is cyclic\<close>

lemma rotate_index:
  "1 < length api_keys \<Longrightarrow>
   api_key_index (state_rotate_to_next_api_key api_keys st)
     = (api_key_index st + 1) mod length api_keys"
  by (auto simp: state_rotate_to_next_api_key_def emit_def)

lemma rotate_iter_index:
  assumes "1 < length api_keys"
  shows "api_key_index ((state_rotate_to_next_api_key api_keys ^^ n) st) mod length api_keys
     = (api_key_index st + n) mod length api_keys"
proof (induction n)
  case 0
  show ?case by simp
next
  case (Suc n)
  let ?f = "state_rotate_to_next_api_key api_keys"
  have "api_key_index ((?f ^^ Suc n) st) mod length api_keys
      = (api_key_index ((?f ^^ n) st) + 1) mod length api_keys"
    by (simp add: rotate_index [OF assms])
  also have "\<dots> = (api_key_index ((?f ^^ n) st) mod length api_keys + 1) mod length api_keys"
    by (simp add: mod_Suc_eq)
  also have "\<dots> = ((api_key_index st + n) mod length api_keys + 1) mod length api_keys"
    by (simp only: Suc.IH)
  also have "\<dots> = (api_key_index st + Suc n) mod length api_keys"
    by (simp add: mod_Suc_eq)
  finally show ?case .
qed

text \<open>
  Claim C7. For a credential set of size \<open>N\<close>, \<open>current()\<close>
  (\<open>ImageGeneratorState.get_next_api_key\<close>) fails with the configuration error when the
  set is empty and otherwise returns the credential at index \<open>cursor mod N\<close>;
  \<open>advance()\<close> (\<open>ImageGeneratorState.rotate_to_next_api_key\<close>) sets the cursor to
  \<open>(cursor + 1) mod N\<close> when \<open>N > 1\<close> and changes nothing when \<open>N \<le> 1\<close>; so after
  \<open>N\<close> calls of \<open>advance()\<close> on a set of \<open>N > 1\<close> keys, \<open>current()\<close> returns the same
  key as before.
\<close>

theorem key_rotator_cyclic:
  "(api_keys = [] \<longrightarrow> state_get_next_api_key st api_keys = Inl ConfigError) \<and>
   (api_keys \<noteq> [] \<longrightarrow>
      state_get_next_api_key st api_keys
        = Inr (api_keys ! (api_key_index st mod length api_keys))) \<and>
   (1 < length api_keys \<longrightarrow>
      api_key_index (state_rotate_to_next_api_key api_keys st)
        = (api_key_index st + 1) mod length api_keys) \<and>
   (length api_keys \<le> 1 \<longrightarrow> state_rotate_to_next_api_key api_keys st = st) \<and>
   (1 < length api_keys \<longrightarrow>
      state_get_next_api_key
         ((state_rotate_to_next_api_key api_keys ^^ length api_keys) st) api_keys
        = state_get_next_api_key st api_keys)"
proof (intro conjI impI)
  assume "api_keys = []"
  then show "state_get_next_api_key st api_keys = Inl ConfigError"
    by (simp add: state_get_next_api_key_def)
next
  assume "api_keys \<noteq> []"
  then show "state_get_next_api_key st api_keys
        = Inr (api_keys ! (api_key_index st mod length api_keys))"
    by (simp add: state_get_next_api_key_def)
next
  assume "1 < length api_keys"
  then show "api_key_index (state_rotate_to_next_api_key api_keys st)
        = (api_key_index st + 1) mod length api_keys"
    by (rule rotate_index)
next
  assume "length api_keys \<le> 1"
  then show "state_rotate_to_next_api_key api_keys st = st"
    by (simp add: state_rotate_to_next_api_key_def)
next
  assume n: "1 < length api_keys"
  then have ne: "api_keys \<noteq> []" by auto
  have "api_key_index ((state_rotate_to_next_api_key api_keys ^^ length api_keys) st)
          mod length api_keys = api_key_index st mod length api_keys"
    using rotate_iter_index [OF n, of "length api_keys" st] by simp
  with ne show "state_get_next_api_key
         ((state_rotate_to_next_api_key api_keys ^^ length api_keys) st) api_keys
        = state_get_next_api_key st api_keys"
    by (simp add: state_get_next_api_key_def)
qed

theorem key_rotator_cyclic_witness:
  "state_get_next_api_key init_state [] = Inl ConfigError \<and>
   state_get_next_api_key init_state [''k1'', ''k2'', ''k3''] = Inr ''k1'' \<and>
   api_key_index (state_rotate_to_next_api_key [''k1'', ''k2'', ''k3''] init_state) = 1 \<and>
   state_rotate_to_next_api_key [''k1''] init_state = init_state \<and>
   state_get_next_api_key
     ((state_rotate_to_next_api_key [''k1'', ''k2'', ''k3'']
         ^^ length [''k1'', ''k2'', ''k3'']) init_state)
     [''k1'', ''k2'', ''k3''] = Inr ''k1''"
proof -
  have a: "state_get_next_api_key init_state [] = Inl ConfigError"
    using key_rotator_cyclic [of "[]" init_state] by simp
  have b: "state_get_next_api_key init_state [''k1'', ''k2'', ''k3''] = Inr ''k1''"
    using key_rotator_cyclic [of "[''k1'', ''k2'', ''k3'']" init_state]
    by (simp add: init_state_def)
  have c: "api_key_index (state_rotate_to_next_api_key [''k1'', ''k2'', ''k3''] init_state) = 1"
    using key_rotator_cyclic [of "[''k1'', ''k2'', ''k3'']" init_state]
    by (simp add: init_state_def)
  have d: "state_rotate_to_next_api_key [''k1''] init_state = init_state"
    using key_rotator_cyclic [of "[''k1'']" init_state] by simp
  have "1 < length [''k1'', ''k2'', ''k3'']" by simp
  with key_rotator_cyclic [of "[''k1'', ''k2'', ''k3'']" init_state]
  have e: "state_get_next_api_key
     ((state_rotate_to_next_api_key [''k1'', ''k2'', ''k3'']
         ^^ length [''k1'', ''k2'', ''k3'']) init_state)
     [''k1'', ''k2'', ''k3''] = state_get_next_api_key init_state [''k1'', ''k2'', ''k3'']"
    by blast
  from a b c d e show ?thesis by (simp only: simp_thms)
qed

section \<open>Credential normalization\<close>

lemma keys_of_parts_eq:
  "keys_of_parts parts keys = keys @ filter (\<lambda>k. k \<noteq> []) (map strip parts)"
  by (induction parts arbitrary: keys) (simp_all add: Let_def)

lemma keys_of_items_eq:
  "keys_of_items items keys
     = keys @ filter (\<lambda>k. k \<noteq> [])
                (map (\<lambda>i. strip (py_str i)) (filter (\<lambda>i. i \<noteq> ItNone) items))"
  by (induction items arbitrary: keys) (simp_all add: Let_def)

lemma strip_strip: "strip (strip s) = strip s"
proof -
  define t where "t = dropWhile is_space s"
  define u where "u = rev (dropWhile is_space (rev t))"
  have t_u: "t = u @ rev (takeWhile is_space (rev t))"
    unfolding u_def by (metis rev_append rev_rev_ident takeWhile_dropWhile_id)
  have "dropWhile is_space u = u"
  proof (cases u)
    case Nil
    then show ?thesis by simp
  next
    case (Cons a u')
    with t_u obtain r where "t = a # r" by (metis append_Cons)
    then have "t \<noteq> []" and "hd t = a" by simp_all
    then have "\<not> is_space a"
      unfolding t_def using hd_dropWhile by metis
    with Cons show ?thesis by simp
  qed
  then have "strip u = u"
    by (simp add: strip_def u_def)
  then show ?thesis
    by (simp add: strip_def u_def t_def)
qed

lemma normalized_key:
  "k \<in> set (normalize_api_keys v) \<Longrightarrow> k \<noteq> [] \<and> strip k = k"
  by (cases v) (auto simp: keys_of_parts_eq keys_of_items_eq strip_strip)

lemma client_keys_id:
  "(\<And>k. k \<in> set ks \<Longrightarrow> k \<noteq> [] \<and> strip k = k)
     \<Longrightarrow> client_keys (KeyList (map ItStr ks)) = ks"
  by (induction ks) (simp_all add: client_keys_def)

lemma normalize_comma_example:
  "normalize_api_keys (CfgStr ''a, b,, c'') = [''a'', ''b'', ''c'']"
  by code_simp

lemma normalize_list_example:
  "normalize_api_keys (CfgList [ItStr ''a'', ItInt 5, ItNone]) = [''a'', ''5'']"
  by code_simp

lemma normalize_empty_example:
  "normalize_api_keys (CfgStr []) = []"
  by code_simp

text \<open>
  Claim C8. \<open>_normalize_api_keys\<close> maps \<open>None\<close> to the empty list; a string is split
  on commas, each segment trimmed and the empty ones dropped (\<open>"a, b,, c"\<close> gives
  \<open>["a", "b", "c"]\<close>, \<open>""\<close> gives \<open>[]\<close>); of a list, each element other than \<open>None\<close>
  is turned into a string and trimmed, the empty results dropped
  (\<open>["a", 5, None]\<close> gives \<open>["a", "5"]\<close>). The result is a list of non-empty trimmed
  strings in the order of the input; the function is total, it has no failing branch.
  The list the generation client derives from that result (lines 224 to 229 of
  \<open>ttp.py\<close>) is the same list.
\<close>

theorem normalize_api_keys_contract:
  "normalize_api_keys CfgNone = [] \<and>
   normalize_api_keys (CfgStr s)
     = filter (\<lambda>k. k \<noteq> []) (map strip (split_char CHR '','' s)) \<and>
   normalize_api_keys (CfgList items)
     = filter (\<lambda>k. k \<noteq> [])
         (map (\<lambda>i. strip (py_str i)) (filter (\<lambda>i. i \<noteq> ItNone) items)) \<and>
   normalize_api_keys (CfgStr ''a, b,, c'') = [''a'', ''b'', ''c''] \<and>
   normalize_api_keys (CfgStr []) = [] \<and>
   normalize_api_keys (CfgList []) = [] \<and>
   normalize_api_keys (CfgList [ItStr ''a'', ItInt 5, ItNone]) = [''a'', ''5''] \<and>
   [] \<notin> set (normalize_api_keys v) \<and>
   map strip (normalize_api_keys v) = normalize_api_keys v \<and>
   client_keys (KeyList (map ItStr (normalize_api_keys v))) = normalize_api_keys v"
proof -
  have none: "normalize_api_keys CfgNone = []"
    by simp
  have str: "normalize_api_keys (CfgStr s)
      = filter (\<lambda>k. k \<noteq> []) (map strip (split_char CHR '','' s))"
    by (simp add: keys_of_parts_eq)
  have lst: "normalize_api_keys (CfgList items)
      = filter (\<lambda>k. k \<noteq> [])
          (map (\<lambda>i. strip (py_str i)) (filter (\<lambda>i. i \<noteq> ItNone) items))"
    by (simp add: keys_of_items_eq)
  have nil: "normalize_api_keys (CfgList []) = []"
    by simp
  have nonempty: "[] \<notin> set (normalize_api_keys v)"
    using normalized_key by blast
  have trimmed: "map strip (normalize_api_keys v) = normalize_api_keys v"
    using normalized_key by (simp add: map_idI)
  have client: "client_keys (KeyList (map ItStr (normalize_api_keys v))) = normalize_api_keys v"
    by (rule client_keys_id) (rule normalized_key)
  from none str lst normalize_comma_example normalize_empty_example nil
    normalize_list_example nonempty trimmed client
  show ?thesis
    by (intro conjI) assumption+
qed


section \<open>The request of format A\<close>

lemma mode_default: "mode_of None = ''openai''"
  by code_simp

text \<open>
  Claim C9. In format A (\<open>mode == "openai"\<close>, the default), without reference images
  the single user message has as its content the instruction string: the sentence
  that asks for a direct image URL or a single \<open>data:image/*;base64,...\<close> string,
  an empty line, and \<open>Description: \<close> followed by the prompt; with reference images the content is a list that starts with the text
  entry of the instruction and goes on with one \<open>image_url\<close> entry per reference
  image, in order; an image payload that does not start with \<open>data:image/\<close> appears
  as \<open>data:image/png;base64,\<close> followed by the payload, another one as it is.
\<close>

theorem format_a_payload:
  "build_payload ''openai'' mdl txt None
     = JObj [(''model'', JStr mdl),
             (''messages'',
              JArr [JObj [(''role'', JStr ''user''),
                          (''content'',
                           JStr (''Generate an image based on the following description, and respond with either a direct image URL or a single data:image/*;base64,... string.''
                                 @ [CHR 0x0A, CHR 0x0A] @ ''Description: '' @ txt))]])] \<and>
   build_payload ''openai'' mdl txt (Some [])
     = JObj [(''model'', JStr mdl),
             (''messages'',
              JArr [JObj [(''role'', JStr ''user''),
                          (''content'',
                           JStr (''Generate an image based on the following description, and respond with either a direct image URL or a single data:image/*;base64,... string.''
                                 @ [CHR 0x0A, CHR 0x0A] @ ''Description: '' @ txt))]])] \<and>
   build_payload ''openai'' mdl txt (Some (img # imgs))
     = JObj [(''model'', JStr mdl),
             (''messages'',
              JArr [JObj [(''role'', JStr ''user''),
                          (''content'',
                           JArr (JObj [(''type'', JStr ''text''),
                                       (''text'',
                                        JStr (''Generate an image based on the following description, and respond with either a direct image URL or a single data:image/*;base64,... string.''
                                              @ [CHR 0x0A, CHR 0x0A] @ ''Description: '' @ txt))]
                                 # map (\<lambda>b. JObj [(''type'', JStr ''image_url''),
                                                  (''image_url'',
                                                   JObj [(''url'',
                                                          JStr (if startswith b ''data:image/'' then b
                                                                else ''data:image/png;base64,'' @ b))])])
                                     (img # imgs)))]])] \<and>
   build_payload ''openai'' ''gpt-image-1'' ''a cat'' (Some [''QUJD'', ''data:image/jpeg;base64,QQ==''])
     = JObj [(''model'', JStr ''gpt-image-1''),
             (''messages'',
              JArr [JObj [(''role'', JStr ''user''),
                          (''content'',
                           JArr [JObj [(''type'', JStr ''text''),
                                       (''text'',
                                        JStr (''Generate an image based on the following description, and respond with either a direct image URL or a single data:image/*;base64,... string.''
                                              @ [CHR 0x0A, CHR 0x0A] @ ''Description: a cat''))],
                                 JObj [(''type'', JStr ''image_url''),
                                       (''image_url'', JObj [(''url'', JStr ''data:image/png;base64,QUJD'')])],
                                 JObj [(''type'', JStr ''image_url''),
                                       (''image_url'',
                                        JObj [(''url'', JStr ''data:image/jpeg;base64,QQ=='')])]])]])] \<and>
   mode_of None = ''openai''"
  by (simp add: build_payload_def images_given_def image_entry_def with_data_prefix_def
      instruction_def mode_default)


section \<open>The image in a string content\<close>

lemma startswith_iff: "startswith s p \<longleftrightarrow> (\<exists>r. s = p @ r)"
  by (induction s p rule: startswith.induct) auto

lemma startswith_append [simp]: "startswith (p @ r) p"
  by (simp add: startswith_iff)
















































section \<open>The image in a list content\<close>

text \<open>
  An entry with a literal URL ends the scan, by the \<open>break\<close> of that branch: what
  comes after it in the list has no effect.
\<close>

lemma scan_url_entry:
  assumes "in_image_types (item_get kvs ''type'') = Inr True"
    and "item_candidate kvs = JStr c" and "c \<noteq> []" and "\<not> startswith c ''data:image/''"
  shows "scan_items (JObj kvs # rest) ex = Inr (JStr c, fst (snd ex), snd (snd ex))"
  using assms by simp

lemma scan_stops_at_url:
  assumes "in_image_types (item_get kvs ''type'') = Inr True"
    and "item_candidate kvs = JStr c" and "c \<noteq> []" and "\<not> startswith c ''data:image/''"
  shows "scan_items (pre @ JObj kvs # rest) ex = scan_items (pre @ [JObj kvs]) ex"
proof (induction pre arbitrary: ex)
  case Nil
  show ?case using assms by simp
next
  case (Cons item pre)
  show ?case
    by (cases item) (simp_all add: Cons.IH split: sum.splits bool.splits json.splits)
qed

text \<open>
  Claim C3. When the message content of the first choice is a list, the search scans
  the entries in order and stops at the first entry of an image type, taking from it
  a literal URL, or the format and the payload of a data URI; the entries after it
  never influence the result. The code stops at an entry with a literal URL only:
  the branch for a data URI has no \<open>break\<close>, so the scan goes on after such an
  entry. For the content of a data-URI entry followed by a URL entry the search
  yields the URL of the second entry besides the payload of the first, and the
  client, which tries the URL first, stores the downloaded bytes \<open>B\<close> and not the
  inline image; followed by another data-URI entry, the first entry's format and
  payload are overwritten by the second's.
\<close>

theorem list_scan_goes_on_after_data_uri:
  "extract_from_content
     (JArr [JObj [(''type'', JStr ''image_url''),
                  (''image_url'', JObj [(''url'', JStr ''data:image/jpeg;base64,QQ=='')])]])
   = Inr (JNull, ''jpeg'', JStr ''QQ=='') \<and>
   extract_from_content
     (JArr [JObj [(''type'', JStr ''image_url''),
                  (''image_url'', JObj [(''url'', JStr ''data:image/jpeg;base64,QQ=='')])],
            JObj [(''type'', JStr ''image_url''),
                  (''image_url'', JObj [(''url'', JStr ''https://x/y.png'')])]])
   = Inr (JStr ''https://x/y.png'', ''jpeg'', JStr ''QQ=='') \<and>
   extract_from_content
     (JArr [JObj [(''type'', JStr ''image_url''),
                  (''image_url'', JObj [(''url'', JStr ''data:image/jpeg;base64,QQ=='')])],
            JObj [(''type'', JStr ''image_url''),
                  (''image_url'', JObj [(''url'', JStr ''data:image/png;base64,QUJD'')])]])
   = Inr (JNull, ''png'', JStr ''QUJD'') \<and>
   generate_image_openai
     (example_world
        (PostResponse 200
           (response_with_content
              (JArr [JObj [(''type'', JStr ''image_url''),
                           (''image_url'', JObj [(''url'', JStr ''data:image/jpeg;base64,QQ=='')])],
                     JObj [(''type'', JStr ''image_url''),
                           (''image_url'', JObj [(''url'', JStr ''https://x/y.png'')])]])))
        (GetResponse 200 ''B''))
     ((example_args None)\<lparr>max_retry_attempts := 1\<rparr>) init_state
   = ((Some ''file:///plugin/images/openai_image_20250101_120000_0a1b2c3d.png'',
       Some ''/plugin/images/openai_image_20250101_120000_0a1b2c3d.png''),
      \<lparr>api_key_index = 0,
       last_saved_image =
         (Some ''file:///plugin/images/openai_image_20250101_120000_0a1b2c3d.png'',
          Some ''/plugin/images/openai_image_20250101_120000_0a1b2c3d.png''),
       trace =
         [EvPost \<lparr>req_url = ''https://api.openai.com/v1/chat/completions'', req_bearer = ''k1'',
                   req_json = build_payload ''openai'' ''gpt-image-1'' ''a cat'' None\<rparr>,
          EvGet ''https://x/y.png'', EvMkdir, EvCleanup,
          EvWrite ''/plugin/images/openai_image_20250101_120000_0a1b2c3d.png'' ''B'',
          EvLog MsgUrlImageSaved]\<rparr>)"
  by code_simp


section \<open>The image store keeps the record on failure\<close>

lemma save_fail:
  "\<not> fst (save_base64_image w env b f st)
     \<Longrightarrow> last_saved_image (snd (save_base64_image w env b f st)) = last_saved_image st
         \<and> api_key_index (snd (save_base64_image w env b f st)) = api_key_index st"
  by (auto simp: save_base64_image_def Let_def emit_def update_saved_image_def
      split: decode_result.splits if_splits)

lemma save_ok:
  "fst (save_base64_image w env b f st)
     \<Longrightarrow> \<exists>image_data.
           mkdir_ok env \<and> decode_arg env b = Decoded image_data
           \<and> write_ok env (images_dir w @ ''/gemini_image_'' @ stamp env @ ''.'' @ f)
           \<and> trace (snd (save_base64_image w env b f st))
               = trace st @ [EvMkdir, EvCleanup,
                             EvWrite (images_dir w @ ''/gemini_image_'' @ stamp env @ ''.'' @ f) image_data,
                             EvLog MsgSavedTo]
           \<and> last_saved_image (snd (save_base64_image w env b f st))
               = (Some (''file://'' @ absolute w (images_dir w @ ''/gemini_image_'' @ stamp env @ ''.'' @ f)),
                  Some (images_dir w @ ''/gemini_image_'' @ stamp env @ ''.'' @ f))"
  by (auto simp: save_base64_image_def Let_def emit_def update_saved_image_def
      split: decode_result.splits if_splits)

text \<open>
  Claim C10. When \<open>save_base64_image\<close> fails, for whatever reason (the directory
  cannot be made, the payload does not decode, the file cannot be written), it
  returns \<open>False\<close> and the saved image record is the one before the call. It returns
  \<open>True\<close> only when the payload decoded and the file was written; then the write
  comes before the update of the record, which names the new file.
\<close>

theorem save_failure_keeps_record:
  "(\<not> fst (save_base64_image w env b f st)
      \<longrightarrow> last_saved_image (snd (save_base64_image w env b f st)) = last_saved_image st) \<and>
   (fst (save_base64_image w env b f st)
      \<longrightarrow> (\<exists>image_data.
             mkdir_ok env \<and> decode_arg env b = Decoded image_data
             \<and> write_ok env (images_dir w @ ''/gemini_image_'' @ stamp env @ ''.'' @ f)
             \<and> trace (snd (save_base64_image w env b f st))
                 = trace st @ [EvMkdir, EvCleanup,
                               EvWrite (images_dir w @ ''/gemini_image_'' @ stamp env @ ''.'' @ f)
                                 image_data,
                               EvLog MsgSavedTo]
             \<and> last_saved_image (snd (save_base64_image w env b f st))
                 = (Some (''file://''
                          @ absolute w (images_dir w @ ''/gemini_image_'' @ stamp env @ ''.'' @ f)),
                    Some (images_dir w @ ''/gemini_image_'' @ stamp env @ ''.'' @ f))))"
  using save_fail [of w env b f st] save_ok [of w env b f st] by blast

theorem save_failure_keeps_record_witness:
  "\<not> fst (save_base64_image (example_world (PostRaises NetworkError) (GetRaises NetworkError))
            (example_env (PostRaises NetworkError) (GetRaises NetworkError))
            (JStr ''A'') ''png'' init_state) \<and>
   last_saved_image
     (snd (save_base64_image (example_world (PostRaises NetworkError) (GetRaises NetworkError))
            (example_env (PostRaises NetworkError) (GetRaises NetworkError))
            (JStr ''A'') ''png'' init_state)) = (None, None) \<and>
   \<not> fst (save_base64_image (example_world (PostRaises NetworkError) (GetRaises NetworkError))
            ((example_env (PostRaises NetworkError) (GetRaises NetworkError))
               \<lparr>write_ok := (\<lambda>_. False)\<rparr>)
            (JStr ''QQ=='') ''png'' init_state) \<and>
   last_saved_image
     (snd (save_base64_image (example_world (PostRaises NetworkError) (GetRaises NetworkError))
            ((example_env (PostRaises NetworkError) (GetRaises NetworkError))
               \<lparr>write_ok := (\<lambda>_. False)\<rparr>)
            (JStr ''QQ=='') ''png'' init_state)) = (None, None) \<and>
   fst (save_base64_image (example_world (PostRaises NetworkError) (GetRaises NetworkError))
            (example_env (PostRaises NetworkError) (GetRaises NetworkError))
            (JStr ''QQ=='') ''png'' init_state) \<and>
   last_saved_image
     (snd (save_base64_image (example_world (PostRaises NetworkError) (GetRaises NetworkError))
            (example_env (PostRaises NetworkError) (GetRaises NetworkError))
            (JStr ''QQ=='') ''png'' init_state))
     = (Some ''file:///plugin/images/gemini_image_20250101_120000_0a1b2c3d.png'',
        Some ''/plugin/images/gemini_image_20250101_120000_0a1b2c3d.png'')"
proof -
  let ?w = "example_world (PostRaises NetworkError) (GetRaises NetworkError)"
  let ?e = "example_env (PostRaises NetworkError) (GetRaises NetworkError)"
  have f1: "\<not> fst (save_base64_image ?w ?e (JStr ''A'') ''png'' init_state)"
    by (simp add: save_base64_image_def example_env_def decode_arg_def Let_def)
  have f2: "\<not> fst (save_base64_image ?w (?e\<lparr>write_ok := (\<lambda>_. False)\<rparr>) (JStr ''QQ=='') ''png'' init_state)"
    by (simp add: save_base64_image_def example_env_def decode_arg_def Let_def)
  have t3: "fst (save_base64_image ?w ?e (JStr ''QQ=='') ''png'' init_state)"
    by (simp add: save_base64_image_def example_env_def decode_arg_def Let_def)
  have i: "last_saved_image init_state = (None, None)"
    by (simp add: init_state_def)
  from save_failure_keeps_record [of ?w ?e "JStr ''A''" "''png''" init_state] f1 i
  have a: "last_saved_image (snd (save_base64_image ?w ?e (JStr ''A'') ''png'' init_state))
             = (None, None)"
    by simp
  from save_failure_keeps_record
         [of ?w "?e\<lparr>write_ok := (\<lambda>_. False)\<rparr>" "JStr ''QQ==''" "''png''" init_state] f2 i
  have b: "last_saved_image
             (snd (save_base64_image ?w (?e\<lparr>write_ok := (\<lambda>_. False)\<rparr>) (JStr ''QQ=='') ''png''
                     init_state)) = (None, None)"
    by simp
  from save_failure_keeps_record [of ?w ?e "JStr ''QQ==''" "''png''" init_state] t3
  have c: "last_saved_image (snd (save_base64_image ?w ?e (JStr ''QQ=='') ''png'' init_state))
     = (Some ''file:///plugin/images/gemini_image_20250101_120000_0a1b2c3d.png'',
        Some ''/plugin/images/gemini_image_20250101_120000_0a1b2c3d.png'')"
    by (auto simp: example_world_def example_env_def)
  from f1 a f2 b t3 c show ?thesis
    by (intro conjI) assumption+
qed


section \<open>The retry loop when every attempt fails\<close>

lemma posts_emit:
  "posts (emit e st) = posts st + (case e of EvPost _ \<Rightarrow> 1 | _ \<Rightarrow> 0)"
  by (simp add: posts_def emit_def split: event.splits)

lemma rotations_emit:
  "rotations (emit e st) = rotations st + (if e = EvRotate then 1 else 0)"
  by (simp add: rotations_def emit_def)

lemma emit_fields [simp]:
  "api_key_index (emit e st) = api_key_index st"
  "last_saved_image (emit e st) = last_saved_image st"
  "trace (emit e st) = trace st @ [e]"
  by (simp_all add: emit_def)

lemma rotate_counts:
  "posts (rotate_to_next_api_key api_keys st) = posts st"
  "rotations (rotate_to_next_api_key api_keys st) = rotations st + 1"
  "last_saved_image (rotate_to_next_api_key api_keys st) = last_saved_image st"
  by (simp_all add: rotate_to_next_api_key_def state_rotate_to_next_api_key_def
      posts_emit rotations_emit posts_def rotations_def)

lemma backoff_counts:
  "posts (backoff k st) = posts st"
  "rotations (backoff k st) = rotations st"
  "api_key_index (backoff k st) = api_key_index st"
  "last_saved_image (backoff k st) = last_saved_image st"
  by (simp_all add: backoff_def posts_emit rotations_emit)

lemma get_key:
  "api_keys \<noteq> [] \<Longrightarrow>
   get_next_api_key st api_keys = Inr (api_keys ! (api_key_index st mod length api_keys))"
  by (simp add: get_next_api_key_def state_get_next_api_key_def)

lemma has_choices_not_200: "status \<noteq> 200 \<Longrightarrow> has_choices status data = Inr False"
  by (simp add: has_choices_def)

lemma attempt_fails:
  assumes keys: "api_keys \<noteq> []"
    and fails: "\<forall>req. provider_fails (post (env_at w k) req)"
  shows "\<exists>st1. attempt w api_keys url payload k st = (None, st1)
           \<and> posts st1 = posts st + 1 \<and> rotations st1 = rotations st + 1
           \<and> last_saved_image st1 = last_saved_image st"
proof -
  let ?req = "\<lparr>req_url = url,
               req_bearer = api_keys ! (api_key_index st mod length api_keys),
               req_json = payload\<rparr>"
  from fails have f: "provider_fails (post (env_at w k) ?req)" by blast
  show ?thesis
  proof (cases "post (env_at w k) ?req")
    case (PostRaises e)
    then show ?thesis
      by (simp add: attempt_def try_attempt_def get_key [OF keys] Let_def
          rotate_counts posts_emit rotations_emit backoff_counts)
  next
    case (PostResponse status data)
    with f have "status \<noteq> 200" by (simp add: provider_fails_def)
    with PostResponse show ?thesis
      by (cases "error_message data")
         (simp_all add: attempt_def try_attempt_def get_key [OF keys] Let_def
          has_choices_not_200 rotate_counts posts_emit rotations_emit backoff_counts)
  qed
qed

lemma retry_loop_all_fail:
  assumes keys: "api_keys \<noteq> []"
  shows "(\<forall>k \<in> set ks. \<forall>req. provider_fails (post (env_at w k) req)) \<Longrightarrow>
     fst (retry_loop w api_keys url payload ks st) = (None, None)
     \<and> posts (snd (retry_loop w api_keys url payload ks st)) = posts st + length ks
     \<and> rotations (snd (retry_loop w api_keys url payload ks st)) = rotations st + length ks
     \<and> last_saved_image (snd (retry_loop w api_keys url payload ks st)) = last_saved_image st"
proof (induction ks arbitrary: st)
  case Nil
  show ?case by (simp add: posts_emit rotations_emit)
next
  case (Cons k ks)
  then have "\<forall>req. provider_fails (post (env_at w k) req)" by simp
  from attempt_fails [OF keys this, of url payload st]
  obtain st1 where a: "attempt w api_keys url payload k st = (None, st1)"
    and p: "posts st1 = posts st + 1" and r: "rotations st1 = rotations st + 1"
    and l: "last_saved_image st1 = last_saved_image st"
    by blast
  from Cons.prems have "\<forall>k \<in> set ks. \<forall>req. provider_fails (post (env_at w k) req)" by simp
  from Cons.IH [OF this, of st1] a p r l show ?case by simp
qed

text \<open>
  Claim C5. With at least one key, a provider that fails in every attempt (the request
  raises, or the status of the answer is not 200) and \<open>max_retry_attempts = N\<close>, the
  client sends exactly \<open>N\<close> requests, calls \<open>rotate_to_next_api_key\<close> exactly once
  per attempt, the last one included, so \<open>N\<close> times, and returns \<open>(None, None)\<close>;
  the saved image record is left as it was.
\<close>

theorem all_attempts_fail:
  assumes "client_keys (api_key a) \<noteq> []"
    and "\<forall>k < nat (max_retry_attempts a). \<forall>req. provider_fails (post (env_at w k) req)"
  shows "fst (generate_image_openai w a st) = (None, None)
     \<and> posts (snd (generate_image_openai w a st)) = posts st + nat (max_retry_attempts a)
     \<and> rotations (snd (generate_image_openai w a st)) = rotations st + nat (max_retry_attempts a)
     \<and> last_saved_image (snd (generate_image_openai w a st)) = last_saved_image st"
proof -
  from assms(2)
  have "\<forall>k \<in> set [0 ..< nat (max_retry_attempts a)]. \<forall>req. provider_fails (post (env_at w k) req)"
    by simp
  from retry_loop_all_fail [OF assms(1) this] assms(1) show ?thesis
    by (simp add: generate_image_openai_def Let_def)
qed

theorem all_attempts_fail_witness:
  "fst (generate_image_openai (example_world (PostResponse 500 JNull) (GetRaises NetworkError))
          (example_args None) init_state) = (None, None)
   \<and> posts (snd (generate_image_openai (example_world (PostResponse 500 JNull) (GetRaises NetworkError))
          (example_args None) init_state)) = 3
   \<and> rotations (snd (generate_image_openai (example_world (PostResponse 500 JNull) (GetRaises NetworkError))
          (example_args None) init_state)) = 3"
proof -
  have k: "client_keys (api_key (example_args None)) \<noteq> []"
    by code_simp
  have f: "\<forall>k < nat (max_retry_attempts (example_args None)). \<forall>req.
      provider_fails (post (env_at (example_world (PostResponse 500 JNull) (GetRaises NetworkError)) k) req)"
    by (simp add: example_world_def example_env_def provider_fails_def)
  have p0: "posts init_state = 0" and r0: "rotations init_state = 0"
    by (simp_all add: posts_def rotations_def init_state_def)
  have n: "nat (max_retry_attempts (example_args None)) = 3"
    by (simp add: example_args_def)
  from all_attempts_fail [OF k f, of init_state] show ?thesis
    by (simp add: p0 r0 n)
qed


section \<open>Reaching a given attempt of the retry loop\<close>


lemma logged_rotate:
  "logged m st \<Longrightarrow> logged m (rotate_to_next_api_key api_keys st)"
  by (simp add: rotate_to_next_api_key_def state_rotate_to_next_api_key_def logged_def emit_def)

lemma retry_loop_prefix:
  assumes step: "\<And>k st. k \<in> set ks1 \<Longrightarrow>
      \<exists>st1. attempt w api_keys url payload k st = (None, st1)
        \<and> posts st1 = posts st + 1 \<and> rotations st1 = rotations st + 1
        \<and> last_saved_image st1 = last_saved_image st"
  shows "\<exists>st1. retry_loop w api_keys url payload (ks1 @ ks2) st
               = retry_loop w api_keys url payload ks2 st1
           \<and> posts st1 = posts st + length ks1 \<and> rotations st1 = rotations st + length ks1
           \<and> last_saved_image st1 = last_saved_image st"
  using step
proof (induction ks1 arbitrary: st)
  case Nil
  show ?case by (intro exI [of _ st]) simp
next
  case (Cons k ks)
  from Cons.prems [of k st]
  obtain st1 where a: "attempt w api_keys url payload k st = (None, st1)"
    and p: "posts st1 = posts st + 1" and r: "rotations st1 = rotations st + 1"
    and l: "last_saved_image st1 = last_saved_image st"
    by auto
  have "\<exists>st2. retry_loop w api_keys url payload (ks @ ks2) st1
               = retry_loop w api_keys url payload ks2 st2
           \<and> posts st2 = posts st1 + length ks \<and> rotations st2 = rotations st1 + length ks
           \<and> last_saved_image st2 = last_saved_image st1"
    by (rule Cons.IH) (rule Cons.prems, simp)
  then obtain st2 where "retry_loop w api_keys url payload (ks @ ks2) st1
               = retry_loop w api_keys url payload ks2 st2"
    and "posts st2 = posts st1 + length ks" and "rotations st2 = rotations st1 + length ks"
    and "last_saved_image st2 = last_saved_image st1"
    by blast
  with a p r l show ?case by auto
qed

lemma range_split: "k < n \<Longrightarrow> [0 ..< n] = [0 ..< k] @ k # [Suc k ..< n]"
  by (metis less_imp_le_nat upt_add_eq_append upt_conv_Cons le_add_diff_inverse zero_le)

lemma generate_reaches_attempt:
  assumes keys: "client_keys (api_key a) \<noteq> []"
    and k: "k < nat (max_retry_attempts a)"
    and fails: "\<forall>j < k. \<forall>req. provider_fails (post (env_at w j) req)"
  shows "\<exists>st1. generate_image_openai w a st
             = retry_loop w (client_keys (api_key a))
                 (build_url (mode_of (api_format a)) (api_base a) (model a))
                 (build_payload (mode_of (api_format a)) (model a) (prompt a) (input_images a))
                 (k # [Suc k ..< nat (max_retry_attempts a)]) st1
           \<and> posts st1 = posts st + k \<and> rotations st1 = rotations st + k
           \<and> last_saved_image st1 = last_saved_image st"
proof -
  let ?url = "build_url (mode_of (api_format a)) (api_base a) (model a)"
  let ?pl = "build_payload (mode_of (api_format a)) (model a) (prompt a) (input_images a)"
  have step: "\<exists>st1. attempt w (client_keys (api_key a)) ?url ?pl j s = (None, st1)
        \<and> posts st1 = posts s + 1 \<and> rotations st1 = rotations s + 1
        \<and> last_saved_image st1 = last_saved_image s" if "j \<in> set [0 ..< k]" for j s
  proof -
    from that fails have "\<forall>req. provider_fails (post (env_at w j) req)" by simp
    from attempt_fails [OF keys this] show ?thesis .
  qed
  from retry_loop_prefix [where ?ks1.0 = "[0 ..< k]" and w = w
         and api_keys = "client_keys (api_key a)" and url = ?url and payload = ?pl and st = st
         and ?ks2.0 = "k # [Suc k ..< nat (max_retry_attempts a)]", OF step]
  obtain st1 where "retry_loop w (client_keys (api_key a)) ?url ?pl
        ([0 ..< k] @ k # [Suc k ..< nat (max_retry_attempts a)]) st
      = retry_loop w (client_keys (api_key a)) ?url ?pl
          (k # [Suc k ..< nat (max_retry_attempts a)]) st1"
    and "posts st1 = posts st + k" and "rotations st1 = rotations st + k"
    and "last_saved_image st1 = last_saved_image st"
    by auto
  with keys range_split [OF k] show ?thesis
    by (auto simp: generate_image_openai_def Let_def)
qed

lemma attempt_empty:
  assumes keys: "api_keys \<noteq> []"
    and post: "\<forall>req. post (env_at w k) req = PostResponse 200 data"
    and hc: "has_choices 200 data = Inr True"
    and ex: "extract_image data = Inr (u, f, b)"
    and u: "\<not> truthy u" and b: "\<not> truthy b"
  shows "\<exists>st1. attempt w api_keys url payload k st = (Some (None, None), st1)
           \<and> posts st1 = posts st + 1 \<and> rotations st1 = rotations st
           \<and> last_saved_image st1 = last_saved_image st
           \<and> last (trace st1) = EvLog MsgNoImage"
  using post hc ex u b
  by (simp add: attempt_def try_attempt_def get_key [OF keys] Let_def handle_ok_response_def
      save_inline_def posts_emit rotations_emit backoff_counts)


section \<open>What one attempt does with an answer of status 200\<close>








section \<open>A well-formed answer without an image ends the call\<close>

text \<open>
  Claim C4. When the answer to attempt \<open>k\<close> has status 200 and non-empty \<open>choices\<close>,
  and the search, the fallback on \<open>data[0]\<close> included, leaves both \<open>image_url\<close> and
  \<open>base64_string\<close> without a true value, the call returns \<open>(None, None)\<close> at once:
  that request is the last one sent, and \<open>rotate_to_next_api_key\<close> is not called
  for this attempt. The attempts before \<open>k\<close> are failed ones, each with its request
  and its rotation; for \<open>k = 0\<close> the call makes exactly one attempt.
\<close>

theorem empty_response_is_terminal:
  assumes "client_keys (api_key a) \<noteq> []"
    and "k < nat (max_retry_attempts a)"
    and "\<forall>j < k. \<forall>req. provider_fails (post (env_at w j) req)"
    and "\<forall>req. post (env_at w k) req = PostResponse 200 data"
    and "has_choices 200 data = Inr True"
    and "extract_image data = Inr (u, f, b)"
    and "\<not> truthy u" and "\<not> truthy b"
  shows "fst (generate_image_openai w a st) = (None, None)
     \<and> posts (snd (generate_image_openai w a st)) = posts st + k + 1
     \<and> rotations (snd (generate_image_openai w a st)) = rotations st + k
     \<and> last_saved_image (snd (generate_image_openai w a st)) = last_saved_image st
     \<and> last (trace (snd (generate_image_openai w a st))) = EvLog MsgNoImage"
proof -
  let ?keys = "client_keys (api_key a)"
  let ?url = "build_url (mode_of (api_format a)) (api_base a) (model a)"
  let ?pl = "build_payload (mode_of (api_format a)) (model a) (prompt a) (input_images a)"
  let ?rest = "[Suc k ..< nat (max_retry_attempts a)]"
  from generate_reaches_attempt [OF assms(1) assms(2) assms(3), of st]
  obtain st1 where g: "generate_image_openai w a st = retry_loop w ?keys ?url ?pl (k # ?rest) st1"
    and p: "posts st1 = posts st + k" and r: "rotations st1 = rotations st + k"
    and l: "last_saved_image st1 = last_saved_image st"
    by blast
  from attempt_empty [OF assms(1) assms(4) assms(5) assms(6) assms(7) assms(8), of ?url ?pl st1]
  obtain st2 where a: "attempt w ?keys ?url ?pl k st1 = (Some (None, None), st2)"
    and p2: "posts st2 = posts st1 + 1" and r2: "rotations st2 = rotations st1"
    and l2: "last_saved_image st2 = last_saved_image st1"
    and t2: "last (trace st2) = EvLog MsgNoImage"
    by blast
  from a have "retry_loop w ?keys ?url ?pl (k # ?rest) st1 = ((None, None), st2)"
    by simp
  with g p r l p2 r2 l2 t2 show ?thesis by simp
qed

theorem empty_response_is_terminal_witness:
  "fst (generate_image_openai
          (example_world (PostResponse 200 (response_with_content (JStr ''no picture in here'')))
             (GetRaises NetworkError))
          (example_args None) init_state) = (None, None)
   \<and> posts (snd (generate_image_openai
          (example_world (PostResponse 200 (response_with_content (JStr ''no picture in here'')))
             (GetRaises NetworkError))
          (example_args None) init_state)) = 1
   \<and> rotations (snd (generate_image_openai
          (example_world (PostResponse 200 (response_with_content (JStr ''no picture in here'')))
             (GetRaises NetworkError))
          (example_args None) init_state)) = 0"
proof -
  let ?data = "response_with_content (JStr ''no picture in here'')"
  let ?w = "example_world (PostResponse 200 ?data) (GetRaises NetworkError)"
  have h1: "client_keys (api_key (example_args None)) \<noteq> []"
    by code_simp
  have h2: "0 < nat (max_retry_attempts (example_args None))"
    by (simp add: example_args_def)
  have h3: "\<forall>j < (0::nat). \<forall>req. provider_fails (post (env_at ?w j) req)"
    by simp
  have h4: "\<forall>req. post (env_at ?w 0) req = PostResponse 200 ?data"
    by (simp add: example_world_def example_env_def)
  have h5: "has_choices 200 ?data = Inr True"
    by code_simp
  have h6: "extract_image ?data = Inr (JNull, ''png'', JNull)"
    by code_simp
  have h7: "\<not> truthy JNull"
    by (simp add: truthy_def)
  have p0: "posts init_state = 0" and r0: "rotations init_state = 0"
    by (simp_all add: posts_def rotations_def init_state_def)
  from empty_response_is_terminal [OF h1 h2 h3 h4 h5 h6 h7 h7, of init_state] show ?thesis
    by (simp add: p0 r0)
qed


section \<open>An image that cannot be stored ends the call\<close>






section \<open>The parsing of the answer does not depend on the mode\<close>




end
